theory Spec2Isabelle
  imports Main "HOL-Library.Word" "HOL-Library.Sublist"
begin

text \<open>
  The job pipeline of AutoNews: the job store, the scheduler with its content sync,
  stuck-job sweep and retention sweep, and the executor that takes a job through fetch,
  summary, speech, render and publish.
\<close>

section \<open>Content hashing\<close>

text \<open>
  A JavaScript string is a sequence of UTF-16 code units; \<^verbatim>\<open>charCodeAt(i)\<close> reads the
  i-th unit as a number between 0 and 65535.
\<close>

type_synonym js_string = "16 word list"

text \<open>
  JavaScript's ToInt32: the bitwise operators first wrap their operand into the signed
  32-bit range. \<^verbatim>\<open>hash & hash\<close> is ToInt32 of \<^verbatim>\<open>hash\<close>, and \<^verbatim>\<open>hash << 5\<close> is
  ToInt32 of 32 times ToInt32 of \<^verbatim>\<open>hash\<close>. The intermediate sums stay far below
  2^53, so the double arithmetic in between is exact.
\<close>

definition toInt32 :: "int \<Rightarrow> int" where
  "toInt32 x = (x + 2 ^ 31) mod 2 ^ 32 - 2 ^ 31"

definition shiftLeft32 :: "int \<Rightarrow> nat \<Rightarrow> int" where
  "shiftLeft32 x k = toInt32 (toInt32 x * 2 ^ (k mod 32))"

definition hexDigit :: "nat \<Rightarrow> char" where
  "hexDigit d = ''0123456789abcdef'' ! d"

text \<open>\<^verbatim>\<open>Number.prototype.toString(16)\<close> on a non-negative integer.\<close>

fun toString16 :: "nat \<Rightarrow> string" where
  "toString16 n =
     (if n < 16 then [hexDigit n] else toString16 (n div 16) @ [hexDigit (n mod 16)])"

declare toString16.simps [simp del]

text \<open>
  \<^verbatim>\<open>generateContentHash\<close> of the scheduler (server/jobs/scheduler.ts): the loop over the
  code units, then \<^verbatim>\<open>Math.abs(hash).toString(16)\<close>.
\<close>

fun generateContentHash_loop :: "int \<Rightarrow> js_string \<Rightarrow> int" where
  "generateContentHash_loop hash [] = hash"
| "generateContentHash_loop hash (char # rest) =
     generateContentHash_loop (toInt32 ((shiftLeft32 hash 5 - hash) + uint char)) rest"

definition generateContentHash :: "js_string \<Rightarrow> string" where
  "generateContentHash content = toString16 (nat \<bar>generateContentHash_loop 0 content\<bar>)"

text \<open>\<^verbatim>\<open>generateHash\<close> of the executor (server/routes.ts), a second copy of the loop.\<close>

fun generateHash_loop :: "int \<Rightarrow> js_string \<Rightarrow> int" where
  "generateHash_loop hash [] = hash"
| "generateHash_loop hash (char # rest) =
     generateHash_loop (toInt32 ((shiftLeft32 hash 5 - hash) + uint char)) rest"

definition generateHash :: "js_string \<Rightarrow> string" where
  "generateHash content = toString16 (nat \<bar>generateHash_loop 0 content\<bar>)"


section \<open>Data model (shared/schema.ts)\<close>

text \<open>
  Timestamps are milliseconds since the epoch. Primary keys come from the database's
  \<^verbatim>\<open>gen_random_uuid()\<close>; the model draws them from a counter kept in the store, so a
  new key is one that was never handed out before. Text columns are \<open>string\<close>, except
  the article body, whose UTF-16 code units the content hash reads.
\<close>

type_synonym timestamp = int
type_synonym uuid = nat

text \<open>
  \<^verbatim>\<open>InsertJob\<close> is the row without \<^verbatim>\<open>id\<close>, \<^verbatim>\<open>createdAt\<close> and \<^verbatim>\<open>updatedAt\<close>. Columns
  with a database default are carried with the default already filled in.
\<close>

record insertJob =
  topic :: string
  language :: string
  targetLength :: int
  autoPublish :: bool
  status :: string
  progress :: int
  steps :: "string list"
  error :: "string option"

record job = insertJob +
  job_id :: uuid
  createdAt :: timestamp
  updatedAt :: timestamp

text \<open>Every derived row references its job (\<^verbatim>\<open>job_id ... ON DELETE cascade\<close>).\<close>

record owned =
  jobId :: uuid

record insertArticle = owned +
  source :: string
  url :: string
  title :: string
  content :: js_string
  contentHash :: string
  mediaUrl :: "string option"
  publishedAt :: "timestamp option"

record article = insertArticle +
  article_id :: uuid
  article_createdAt :: timestamp

record insertSummary = owned +
  summaryText :: string
  wordCount :: int
  summaryLanguage :: string
  qualityFlags :: "(string \<times> bool) list"

record summary = insertSummary +
  summary_id :: uuid
  summary_createdAt :: timestamp

record insertAudioFile = owned +
  audioUrl :: string
  audioDuration :: int
  sampleRate :: int
  format :: string
  audioSize :: "int option"

record audioFile = insertAudioFile +
  audio_id :: uuid
  audio_createdAt :: timestamp

record insertVideo = owned +
  urlMp4 :: string
  urlSrt :: "string option"
  urlThumb :: "string option"
  width :: int
  height :: int
  videoDuration :: int
  videoSize :: "int option"

record video = insertVideo +
  video_id :: uuid
  video_createdAt :: timestamp

record insertPublication = owned +
  platform :: string
  videoId :: string
  pubStatus :: string
  pubPublishedAt :: "timestamp option"

record publication = insertPublication +
  publication_id :: uuid
  publication_createdAt :: timestamp

record store =
  jobs :: "job list"
  articles :: "article list"
  summaries :: "summary list"
  audioFiles :: "audioFile list"
  videos :: "video list"
  publications :: "publication list"
  nextId :: uuid

section \<open>The job store (server/storage.ts)\<close>

text \<open>
  The database is taken to answer every statement: connection failures are outside the
  model. \<^verbatim>\<open>new Date()\<close> is the argument \<open>now\<close> of each operation that reads the clock.
  Tables are lists of rows, a new row going to the end. The callers modelled here insert a
  derived row only for a job they have just read, so the foreign key is not checked again.
\<close>

definition getJobById :: "store \<Rightarrow> uuid \<Rightarrow> job option" where
  "getJobById db i = find (\<lambda>j. job_id j = i) (jobs db)"

text \<open>
  \<^verbatim>\<open>cutoffDate.setDate(cutoffDate.getDate() - daysSince)\<close> moves the date back by whole
  calendar days, which is 86400000 ms per day (the server clock has no daylight-saving
  shift; the cron jobs run in UTC).
\<close>

definition getJobsByTopic :: "store \<Rightarrow> timestamp \<Rightarrow> string \<Rightarrow> int \<Rightarrow> job list" where
  "getJobsByTopic db now tp daysSince =
     (let cutoffDate = now - daysSince * 86400000
      in rev (sort_key createdAt
           (filter (\<lambda>j. topic j = tp \<and> cutoffDate \<le> createdAt j) (jobs db))))"


definition createJob :: "store \<Rightarrow> timestamp \<Rightarrow> insertJob \<Rightarrow> store \<times> job" where
  "createJob db now jobData =
     (let newJob = insertJob.extend jobData (job.fields (nextId db) now now)
      in (db\<lparr>jobs := jobs db @ [newJob], nextId := Suc (nextId db)\<rparr>, newJob))"

text \<open>
  \<^verbatim>\<open>updateJobStatus(id, status, error?, progress?)\<close>: an omitted argument is \<open>None\<close>, a
  passed \<^verbatim>\<open>null\<close> error is \<open>Some None\<close>. Status and \<^verbatim>\<open>updatedAt\<close> are always written,
  the other two columns only when passed; the \<^verbatim>\<open>WHERE\<close> clause is the id alone.
\<close>

definition updateJobStatus ::
  "store \<Rightarrow> timestamp \<Rightarrow> uuid \<Rightarrow> string \<Rightarrow> string option option \<Rightarrow> int option \<Rightarrow> store" where
  "updateJobStatus db now i st err prog =
     (let set_error = (\<lambda>j. case err of None \<Rightarrow> j | Some e \<Rightarrow> j\<lparr>error := e\<rparr>);
          set_progress = (\<lambda>j. case prog of None \<Rightarrow> j | Some p \<Rightarrow> j\<lparr>progress := p\<rparr>);
          updateData = (\<lambda>j. set_progress (set_error (j\<lparr>status := st, updatedAt := now\<rparr>)))
      in db\<lparr>jobs := map (\<lambda>j. if job_id j = i then updateData j else j) (jobs db)\<rparr>)"

text \<open>
  \<^verbatim>\<open>DELETE FROM jobs WHERE ... RETURNING id\<close>. The foreign keys of the five derived
  tables are declared \<^verbatim>\<open>ON DELETE cascade\<close>, so the rows of a deleted job go with it.
\<close>

definition cascade :: "uuid list \<Rightarrow> ('a owned_scheme) list \<Rightarrow> ('a owned_scheme) list" where
  "cascade ids rows = filter (\<lambda>r. jobId r \<notin> set ids) rows"

definition deleteJobsWhere :: "(job \<Rightarrow> bool) \<Rightarrow> store \<Rightarrow> store \<times> uuid list" where
  "deleteJobsWhere cond db =
     (let returning = map job_id (filter cond (jobs db))
      in (db\<lparr>jobs := filter (\<lambda>j. \<not> cond j) (jobs db),
             articles := cascade returning (articles db),
             summaries := cascade returning (summaries db),
             audioFiles := cascade returning (audioFiles db),
             videos := cascade returning (videos db),
             publications := cascade returning (publications db)\<rparr>,
          returning))"

definition deleteJob :: "store \<Rightarrow> uuid \<Rightarrow> store" where
  "deleteJob db i = fst (deleteJobsWhere (\<lambda>j. job_id j = i) db)"

definition deleteJobsOlderThan :: "store \<Rightarrow> timestamp \<Rightarrow> store \<times> nat" where
  "deleteJobsOlderThan db date =
     (let (db', result) = deleteJobsWhere (\<lambda>j. createdAt j \<le> date) db
      in (db', length result))"

definition getArticleByJobId :: "store \<Rightarrow> uuid \<Rightarrow> article option" where
  "getArticleByJobId db i = find (\<lambda>a. jobId a = i) (articles db)"

definition createArticle :: "store \<Rightarrow> timestamp \<Rightarrow> insertArticle \<Rightarrow> store \<times> article" where
  "createArticle db now a =
     (let newArticle = insertArticle.extend a (article.fields (nextId db) now)
      in (db\<lparr>articles := articles db @ [newArticle], nextId := Suc (nextId db)\<rparr>, newArticle))"

definition getExistingArticleHashes :: "store \<Rightarrow> string list \<Rightarrow> string list" where
  "getExistingArticleHashes db hashes =
     (if length hashes = 0 then []
      else map contentHash (filter (\<lambda>a. contentHash a \<in> set hashes) (articles db)))"

definition getSummaryByJobId :: "store \<Rightarrow> uuid \<Rightarrow> summary option" where
  "getSummaryByJobId db i = find (\<lambda>s. jobId s = i) (summaries db)"

definition createSummary :: "store \<Rightarrow> timestamp \<Rightarrow> insertSummary \<Rightarrow> store \<times> summary" where
  "createSummary db now s =
     (let newSummary = insertSummary.extend s (summary.fields (nextId db) now)
      in (db\<lparr>summaries := summaries db @ [newSummary], nextId := Suc (nextId db)\<rparr>, newSummary))"

definition createAudio :: "store \<Rightarrow> timestamp \<Rightarrow> insertAudioFile \<Rightarrow> store \<times> audioFile" where
  "createAudio db now a =
     (let newAudio = insertAudioFile.extend a (audioFile.fields (nextId db) now)
      in (db\<lparr>audioFiles := audioFiles db @ [newAudio], nextId := Suc (nextId db)\<rparr>, newAudio))"

definition getVideoByJobId :: "store \<Rightarrow> uuid \<Rightarrow> video option" where
  "getVideoByJobId db i = find (\<lambda>v. jobId v = i) (videos db)"

definition createVideo :: "store \<Rightarrow> timestamp \<Rightarrow> insertVideo \<Rightarrow> store \<times> video" where
  "createVideo db now v =
     (let newVideo = insertVideo.extend v (video.fields (nextId db) now)
      in (db\<lparr>videos := videos db @ [newVideo], nextId := Suc (nextId db)\<rparr>, newVideo))"

definition createPublication ::
  "store \<Rightarrow> timestamp \<Rightarrow> insertPublication \<Rightarrow> store \<times> publication" where
  "createPublication db now p =
     (let newPublication = insertPublication.extend p (publication.fields (nextId db) now)
      in (db\<lparr>publications := publications db @ [newPublication], nextId := Suc (nextId db)\<rparr>,
          newPublication))"


section \<open>Collaborators\<close>

text \<open>
  A thrown JavaScript value: an \<^verbatim>\<open>Error\<close> object with its message, or anything else.
  A call that can throw returns \<open>Inl\<close> of the thrown value.
\<close>

datatype exn = Error string | NonError

text \<open>
  \<^verbatim>\<open>GNewsArticle\<close>, as \<^verbatim>\<open>gnewsService.fetchArticles\<close> returns it. The publication date is
  carried as the timestamp that \<^verbatim>\<open>new Date(publishedAt)\<close> parses from it.
\<close>

record gnewsArticle =
  g_title :: string
  description :: js_string
  g_url :: string
  g_image :: "string option"
  g_publishedAt :: "timestamp option"

text \<open>
  The outcome of a \<^verbatim>\<open>fetch\<close> call: the promise rejects, or it resolves to a response
  with its \<^verbatim>\<open>ok\<close> flag, status (as printed), status text, body text and parsed JSON body
  (\<^verbatim>\<open>response.json()\<close> can throw).
\<close>

datatype 'a fetchResult = Rejected exn | Response bool string string string "exn + 'a"

text \<open>\<^verbatim>\<open>SummaryResult\<close> and \<^verbatim>\<open>TTSResult\<close> of the NLP service (server/services/nlp.ts).\<close>

record summaryResult =
  sr_text :: string
  sr_wordCount :: int
  sr_qualityFlags :: "(string \<times> bool) list option"

record ttsResult =
  tts_url :: string
  tts_duration :: int
  tts_sampleRate :: int
  tts_format :: string
  tts_size :: int

text \<open>
  The video service (server/services/video.ts): the request, the JSON body of the render
  service's answer, and the result \<^verbatim>\<open>renderVideo\<close> builds from it.
\<close>

record videoRenderRequest =
  req_summary :: string
  req_audioUrl :: string
  req_duration :: int
  req_images :: "string list"
  req_title :: string

record renderJson =
  video_url :: string
  subtitle_url :: "string option"
  thumbnail_url :: string
  json_width :: "int option"
  json_height :: "int option"
  json_duration :: int
  json_size :: "int option"

record videoRenderResult =
  vr_urlMp4 :: string
  vr_urlSrt :: "string option"
  vr_urlThumb :: string
  vr_width :: int
  vr_height :: int
  vr_duration :: int
  vr_size :: int

text \<open>\<^verbatim>\<open>x || d\<close> on an optional number: \<^verbatim>\<open>undefined\<close> and 0 are falsy.\<close>

definition orDefault :: "int option \<Rightarrow> int \<Rightarrow> int" where
  "orDefault x d = (case x of None \<Rightarrow> d | Some v \<Rightarrow> if v = 0 then d else v)"

text \<open>
  \<^verbatim>\<open>renderVideo\<close>: the request is posted to the render service; a response that is not
  \<^verbatim>\<open>ok\<close> is turned into an error naming the video service; every error is logged and
  thrown again.
\<close>

definition renderVideo ::
  "(videoRenderRequest \<Rightarrow> renderJson fetchResult) \<Rightarrow> videoRenderRequest \<Rightarrow> exn + videoRenderResult" where
  "renderVideo fetch request =
     (case fetch request of
        Rejected e \<Rightarrow> Inl e
      | Response ok st statusText errorText body \<Rightarrow>
          if \<not> ok then
            Inl (Error (''Video service error: '' @ st @ '' '' @ statusText @ '' - '' @ errorText))
          else
            (case body of
               Inl e \<Rightarrow> Inl e
             | Inr result \<Rightarrow>
                 Inr \<lparr>vr_urlMp4 = video_url result, vr_urlSrt = subtitle_url result,
                      vr_urlThumb = thumbnail_url result,
                      vr_width = orDefault (json_width result) 1920,
                      vr_height = orDefault (json_height result) 1080,
                      vr_duration = json_duration result,
                      vr_size = orDefault (json_size result) 0\<rparr>))"

text \<open>
  The YouTube service (server/services/youtube.ts) keeps the two OAuth tokens.
  \<^verbatim>\<open>!token\<close> holds for \<^verbatim>\<open>null\<close> and for the empty string.
\<close>

record youtubeService =
  accessToken :: "string option"
  refreshToken :: "string option"

record youTubeUploadResult =
  up_videoId :: string
  up_status :: string
  up_publishedAt :: "timestamp option"

definition falsy :: "string option \<Rightarrow> bool" where
  "falsy t = (t = None \<or> t = Some [])"

text \<open>
  The network collaborators, each a function from the arguments of the call to its
  outcome:
  \<^item> \<open>fetchArticles\<close>: \<^verbatim>\<open>gnewsService.fetchArticles(topic, language, maxResults)\<close>;
  \<^item> \<open>generateSummary\<close>: \<^verbatim>\<open>nlpService.generateSummary(title, content, targetLength)\<close>;
  \<^item> \<open>generateTTS\<close>: \<^verbatim>\<open>nlpService.generateTTS(text, language)\<close>;
  \<^item> \<open>renderFetch\<close>: the render service's answer to the posted request;
  \<^item> \<open>tokenFetch\<close>: Google's answer to the token refresh, with the new access token;
  \<^item> \<open>uploadNet\<close>: the download of the video and its upload to YouTube, for a video URL.
\<close>

record services =
  fetchArticles :: "string \<Rightarrow> string \<Rightarrow> nat \<Rightarrow> exn + gnewsArticle list"
  generateSummary :: "string \<Rightarrow> js_string \<Rightarrow> int \<Rightarrow> exn + summaryResult"
  generateTTS :: "string \<Rightarrow> string \<Rightarrow> exn + ttsResult"
  renderFetch :: "videoRenderRequest \<Rightarrow> renderJson fetchResult"
  tokenFetch :: "string option fetchResult"
  uploadNet :: "string \<Rightarrow> exn + youTubeUploadResult"

definition refreshAccessToken :: "services \<Rightarrow> youtubeService \<Rightarrow> exn + youtubeService" where
  "refreshAccessToken sv yt =
     (if falsy (refreshToken yt) then
        Inl (Error ''No refresh token available. Re-authentication required.'')
      else
        (case tokenFetch sv of
           Rejected e \<Rightarrow> Inl e
         | Response ok st statusText errorText body \<Rightarrow>
             if \<not> ok then Inl (Error (''Token refresh failed: '' @ statusText))
             else (case body of
                     Inl e \<Rightarrow> Inl e
                   | Inr access_token \<Rightarrow> Inr (yt\<lparr>accessToken := access_token\<rparr>))))"

definition uploadToYouTube :: "services \<Rightarrow> youtubeService \<Rightarrow> string \<Rightarrow> exn + youTubeUploadResult" where
  "uploadToYouTube sv yt videoUrl =
     (if falsy (accessToken yt) then Inl (Error ''YouTube access token not available'')
      else uploadNet sv videoUrl)"

text \<open>
  The part of \<^verbatim>\<open>publishVideo\<close>'s \<^verbatim>\<open>try\<close> block that talks to Google: the token is
  refreshed when there is none, then the video is uploaded. The title, description and tags
  computed from the job's summary and article go to YouTube with the upload and nowhere
  else.
\<close>

definition publishAttempt ::
  "services \<Rightarrow> youtubeService \<Rightarrow> string \<Rightarrow> youtubeService \<times> (exn + youTubeUploadResult)" where
  "publishAttempt sv yt videoUrl =
     (case (if falsy (accessToken yt) then refreshAccessToken sv yt else Inr yt) of
        Inl e \<Rightarrow> (yt, Inl e)
      | Inr yt1 \<Rightarrow> (yt1, uploadToYouTube sv yt1 videoUrl))"

text \<open>
  \<^verbatim>\<open>publishVideo(job, video)\<close>. On success the publication is recorded; on any error a
  publication with status \<^verbatim>\<open>failed\<close> is recorded and the error is thrown again.
\<close>

definition publishVideo ::
  "services \<Rightarrow> youtubeService \<Rightarrow> store \<Rightarrow> timestamp \<Rightarrow> job \<Rightarrow> video \<Rightarrow>
   store \<times> youtubeService \<times> (exn + publication)" where
  "publishVideo sv yt db now jb vid =
     (let (yt', attempt) = publishAttempt sv yt (urlMp4 vid)
      in case attempt of
           Inr uploadResult \<Rightarrow>
             (let (db', pub) = createPublication db now
                    \<lparr>jobId = job_id jb, platform = ''youtube'', videoId = up_videoId uploadResult,
                     pubStatus = up_status uploadResult,
                     pubPublishedAt = up_publishedAt uploadResult\<rparr>
              in (db', yt', Inr pub))
         | Inl e \<Rightarrow>
             (let (db', pub) = createPublication db now
                    \<lparr>jobId = job_id jb, platform = ''youtube'', videoId = [],
                     pubStatus = ''failed'', pubPublishedAt = None\<rparr>
              in (db', yt', Inl e)))"

section \<open>The scheduler (server/jobs/scheduler.ts)\<close>

definition defaultTopics :: "string list" where
  "defaultTopics =
     [''technology'', ''artificial intelligence'', ''climate change'', ''economy'',
      ''health'', ''science'', ''global politics'']"

text \<open>
  \<^verbatim>\<open>lengths[Math.floor(Math.random() * lengths.length)]\<close>; the argument is the drawn
  index, which \<^verbatim>\<open>Math.random()\<close> in [0, 1) keeps below the length of the array.
\<close>

definition getRandomTargetLength :: "nat \<Rightarrow> int" where
  "getRandomTargetLength r = (let lengths = [60, 90, 120] in lengths ! (r mod length lengths))"

text \<open>
  The scheduler's functions return, next to the store, the ids on which the executor
  (\<^verbatim>\<open>processJob\<close>) was started. \<open>clk k\<close> is the value of the k-th \<^verbatim>\<open>new Date()\<close> of the
  run, \<open>rnd k\<close> the k-th random draw.

  The loop over \<^verbatim>\<open>articlesToProcess\<close>: one \<^verbatim>\<open>storage.createJob\<close> per article, a log line
  and a one-second pause.
\<close>

fun createJobs ::
  "(nat \<Rightarrow> timestamp) \<Rightarrow> (nat \<Rightarrow> nat) \<Rightarrow> string \<Rightarrow> nat \<Rightarrow> store \<times> uuid list \<Rightarrow>
   gnewsArticle list \<Rightarrow> store \<times> uuid list" where
  "createJobs clk rnd tp k (db, started) [] = (db, started)"
| "createJobs clk rnd tp k (db, started) (article # rest) =
     (let jobData = \<lparr>topic = tp, language = ''en'',
                      targetLength = getRandomTargetLength (rnd k), autoPublish = True,
                      status = ''queued'', progress = 0, steps = [], error = None\<rparr>;
          (db', job) = createJob db (clk (Suc k)) jobData
      in createJobs clk rnd tp (Suc k) (db', started) rest)"

text \<open>
  The body that \<^verbatim>\<open>performDailySync\<close> runs for one topic. An error thrown inside is
  caught and logged, and the topic's work ends there.
\<close>

definition syncTopic ::
  "services \<Rightarrow> (nat \<Rightarrow> timestamp) \<Rightarrow> (nat \<Rightarrow> nat) \<Rightarrow> store \<times> uuid list \<Rightarrow> string \<Rightarrow>
   store \<times> uuid list" where
  "syncTopic sv clk rnd w tp =
     (let (db, started) = w;
          recentJobs = getJobsByTopic db (clk 0) tp 1
      in if length recentJobs \<ge> 3 then (db, started)
         else case fetchArticles sv tp ''en'' 5 of
                Inl e \<Rightarrow> (db, started)
              | Inr fetched \<Rightarrow>
                  if length fetched = 0 then (db, started)
                  else
                    let existingHashes = getExistingArticleHashes db
                          (map (\<lambda>a. generateContentHash (description a)) fetched);
                        newArticles = filter (\<lambda>article.
                           generateContentHash (description article) \<notin> set existingHashes) fetched
                    in if length newArticles = 0 then (db, started)
                       else
                         let articlesToProcess = take 2 newArticles
                         in createJobs clk rnd tp 0 (db, started) articlesToProcess)"

text \<open>
  \<^verbatim>\<open>performDailySync\<close> starts the body for every default topic and waits for all of them
  (\<^verbatim>\<open>Promise.allSettled\<close>). The topics' bodies touch disjoint rows (each creates jobs of
  its own topic only, and none writes an article), so they are run here one after the
  other, each with its own clock readings and random draws.
\<close>

definition performDailySync ::
  "services \<Rightarrow> (string \<Rightarrow> nat \<Rightarrow> timestamp) \<Rightarrow> (string \<Rightarrow> nat \<Rightarrow> nat) \<Rightarrow> store \<Rightarrow>
   store \<times> uuid list" where
  "performDailySync sv clk rnd db =
     foldl (\<lambda>w tp. syncTopic sv (clk tp) (rnd tp) w tp) (db, []) defaultTopics"

text \<open>
  The create-job endpoint (\<^verbatim>\<open>POST /api/jobs\<close> in server/routes.ts): the body is parsed
  (\<open>None\<close> when \<^verbatim>\<open>insertJobSchema.parse\<close> rejects it), the job is stored, and
  \<^verbatim>\<open>processJob(job.id)\<close> is started without being awaited. The result carries the HTTP
  status of the reply.
\<close>

definition createJobRoute ::
  "store \<Rightarrow> timestamp \<Rightarrow> insertJob option \<Rightarrow> (store \<times> uuid list) \<times> nat" where
  "createJobRoute db now body =
     (case body of
        None \<Rightarrow> ((db, []), 400)
      | Some jobData \<Rightarrow>
          (let (db', job) = createJob db now jobData
           in ((db', [job_id job]), 201)))"



text \<open>\<^verbatim>\<open>cleanupOldJobs\<close>: the cutoff is thirty days back; the count is logged.\<close>

definition cleanupOldJobs :: "timestamp \<Rightarrow> store \<Rightarrow> store \<times> nat" where
  "cleanupOldJobs now db =
     (let cutoffDate = now - 30 * 86400000
      in deleteJobsOlderThan db cutoffDate)"

section \<open>The executor (processJob in server/routes.ts)\<close>

text \<open>
  The body of the \<^verbatim>\<open>try\<close> block. The result lists the store after each write, in order,
  and says how the block ended: normally (\<open>None\<close>) or with a thrown value. \<open>clk k\<close> is
  the clock reading of the k-th write.
\<close>

definition processJob_try ::
  "services \<Rightarrow> (nat \<Rightarrow> timestamp) \<Rightarrow> youtubeService \<Rightarrow> store \<Rightarrow> uuid \<Rightarrow>
   store list \<times> youtubeService \<times> exn option" where
  "processJob_try sv clk yt db0 jid =
     (let db1 = updateJobStatus db0 (clk 0) jid ''running'' (Some None) (Some 10)
      in case getJobById db1 jid of
           None \<Rightarrow> ([db1], yt, Some (Error ''Job not found''))
         | Some jb \<Rightarrow>
      (case fetchArticles sv (topic jb) (language jb) 10 of
           Inl e \<Rightarrow> ([db1], yt, Some e)
         | Inr [] \<Rightarrow> ([db1], yt, Some (Error ''No articles found''))
         | Inr (first # _) \<Rightarrow>
      (let (db2, art) = createArticle db1 (clk 1)
             \<lparr>jobId = jid, source = ''gnews'', url = g_url first, title = g_title first,
              content = description first, contentHash = generateHash (description first),
              mediaUrl = g_image first, publishedAt = g_publishedAt first\<rparr>;
           db3 = updateJobStatus db2 (clk 2) jid ''running'' (Some None) (Some 25)
       in case generateSummary sv (title art) (content art) (targetLength jb) of
            Inl e \<Rightarrow> ([db1, db2, db3], yt, Some e)
          | Inr summaryResult \<Rightarrow>
      (let (db4, summ) = createSummary db3 (clk 3)
             \<lparr>jobId = jid, summaryText = sr_text summaryResult,
              wordCount = sr_wordCount summaryResult, summaryLanguage = language jb,
              qualityFlags = (case sr_qualityFlags summaryResult of None \<Rightarrow> [] | Some f \<Rightarrow> f)\<rparr>;
           db5 = updateJobStatus db4 (clk 4) jid ''running'' (Some None) (Some 50)
       in case generateTTS sv (summaryText summ) (language jb) of
            Inl e \<Rightarrow> ([db1, db2, db3, db4, db5], yt, Some e)
          | Inr audioResult \<Rightarrow>
      (let (db6, audio) = createAudio db5 (clk 5)
             \<lparr>jobId = jid, audioUrl = tts_url audioResult,
              audioDuration = tts_duration audioResult, sampleRate = tts_sampleRate audioResult,
              format = tts_format audioResult, audioSize = Some (tts_size audioResult)\<rparr>;
           db7 = updateJobStatus db6 (clk 6) jid ''running'' (Some None) (Some 75)
       in case renderVideo (renderFetch sv)
                 \<lparr>req_summary = summaryText summ, req_audioUrl = audioUrl audio,
                  req_duration = audioDuration audio,
                  req_images = (case mediaUrl art of
                                  None \<Rightarrow> []
                                | Some m \<Rightarrow> if m = [] then [] else [m]),
                  req_title = title art\<rparr> of
            Inl e \<Rightarrow> ([db1, db2, db3, db4, db5, db6, db7], yt, Some e)
          | Inr videoResult \<Rightarrow>
      (let (db8, vid) = createVideo db7 (clk 7)
             \<lparr>jobId = jid, urlMp4 = vr_urlMp4 videoResult, urlSrt = vr_urlSrt videoResult,
              urlThumb = Some (vr_urlThumb videoResult), width = vr_width videoResult,
              height = vr_height videoResult, videoDuration = vr_duration videoResult,
              videoSize = Some (vr_size videoResult)\<rparr>;
           db9 = updateJobStatus db8 (clk 8) jid ''completed'' (Some None) (Some 100)
       in if autoPublish jb then
            (case publishVideo sv yt db9 (clk 9) jb vid of
               (db10, yt', Inl e) \<Rightarrow>
                 ([db1, db2, db3, db4, db5, db6, db7, db8, db9, db10], yt', Some e)
             | (db10, yt', Inr _) \<Rightarrow>
                 ([db1, db2, db3, db4, db5, db6, db7, db8, db9, db10], yt', None))
          else ([db1, db2, db3, db4, db5, db6, db7, db8, db9], yt, None)))))))"

text \<open>\<^verbatim>\<open>error instanceof Error ? error.message : "Unknown error"\<close>\<close>

definition errorMessage :: "exn \<Rightarrow> string" where
  "errorMessage e = (case e of Error m \<Rightarrow> m | NonError \<Rightarrow> ''Unknown error'')"

text \<open>
  \<^verbatim>\<open>processJob(jobId)\<close>: the \<^verbatim>\<open>try\<close> block, and the \<^verbatim>\<open>catch\<close> that writes the failure
  with the error's message and no progress argument.
\<close>

definition processJob ::
  "services \<Rightarrow> (nat \<Rightarrow> timestamp) \<Rightarrow> youtubeService \<Rightarrow> store \<Rightarrow> uuid \<Rightarrow>
   store list \<times> youtubeService" where
  "processJob sv clk yt db0 jid =
     (case processJob_try sv clk yt db0 jid of
        (trace, yt', None) \<Rightarrow> (trace, yt')
      | (trace, yt', Some e) \<Rightarrow>
          (trace @ [updateJobStatus (last trace) (clk 10) jid ''failed''
                      (Some (Some (errorMessage e))) None],
           yt'))"

section \<open>Observations and example inputs\<close>

text \<open>The derived rows of a job, table by table.\<close>

definition derivedRows ::
  "store \<Rightarrow> uuid \<Rightarrow> article list \<times> summary list \<times> audioFile list \<times> video list \<times> publication list" where
  "derivedRows db i =
     (filter (\<lambda>r. jobId r = i) (articles db), filter (\<lambda>r. jobId r = i) (summaries db),
      filter (\<lambda>r. jobId r = i) (audioFiles db), filter (\<lambda>r. jobId r = i) (videos db),
      filter (\<lambda>r. jobId r = i) (publications db))"

text \<open>What a reader of the job row sees of its state: status, progress and error.\<close>

definition jobState :: "store \<Rightarrow> uuid \<Rightarrow> (string \<times> int \<times> string option) option" where
  "jobState db i = map_option (\<lambda>j. (status j, progress j, error j)) (getJobById db i)"

text \<open>
  The invariant of a job row: the progress is 100 exactly when the job is completed, and
  the error is set exactly when the job is failed.
\<close>

definition jobInvariant :: "string \<times> int \<times> string option \<Rightarrow> bool" where
  "jobInvariant s =
     (case s of (st, p, e) \<Rightarrow>
        ((p = 100) = (st = ''completed'')) \<and> ((e \<noteq> None) = (st = ''failed'')))"

text \<open>The code units of an ASCII text.\<close>

definition ascii :: "string \<Rightarrow> js_string" where
  "ascii s = map of_char s"

definition emptyStore :: store where
  "emptyStore = \<lparr>jobs = [], articles = [], summaries = [], audioFiles = [], videos = [],
                  publications = [], nextId = 0\<rparr>"

text \<open>A job row with the given id, topic, status, progress and time of creation and last update.\<close>

definition exampleJob :: "uuid \<Rightarrow> string \<Rightarrow> string \<Rightarrow> int \<Rightarrow> timestamp \<Rightarrow> job" where
  "exampleJob i tp st p t =
     \<lparr>topic = tp, language = ''en'', targetLength = 90, autoPublish = True, status = st,
      progress = p, steps = [], error = None, job_id = i, createdAt = t, updatedAt = t\<rparr>"

definition exampleSummary :: "uuid \<Rightarrow> uuid \<Rightarrow> summary" where
  "exampleSummary i j =
     \<lparr>jobId = j, summaryText = ''Rates stay unchanged.'', wordCount = 3, summaryLanguage = ''en'',
      qualityFlags = [], summary_id = i, summary_createdAt = 0\<rparr>"

definition exampleArticle :: gnewsArticle where
  "exampleArticle =
     \<lparr>g_title = ''Rates on hold'',
      description = ascii ''Central bank holds interest rates steady as inflation cools.'',
      g_url = ''https://news.example/rates'', g_image = None, g_publishedAt = Some 0\<rparr>"

definition otherArticle :: gnewsArticle where
  "otherArticle =
     \<lparr>g_title = ''Faster batteries'',
      description = ascii ''Researchers report a new battery design that charges in minutes.'',
      g_url = ''https://news.example/battery'', g_image = None, g_publishedAt = Some 0\<rparr>"

text \<open>
  Collaborators that all answer: one article for every topic, a summary, an audio file and
  a rendered video. No YouTube token has been set, as on a server on which \<^verbatim>\<open>setTokens\<close>
  was never called.
\<close>

definition exampleServices :: services where
  "exampleServices =
     \<lparr>fetchArticles = (\<lambda>tp lang n. Inr [exampleArticle]),
      generateSummary = (\<lambda>t c n. Inr \<lparr>sr_text = ''Rates stay unchanged.'', sr_wordCount = 3,
                                       sr_qualityFlags = None\<rparr>),
      generateTTS = (\<lambda>t lang. Inr \<lparr>tts_url = ''https://tts.example/a.wav'', tts_duration = 2,
                                    tts_sampleRate = 22050, tts_format = ''wav'', tts_size = 1000\<rparr>),
      renderFetch = (\<lambda>r. Response True ''200'' ''OK'' []
                            (Inr \<lparr>video_url = ''https://video.example/v.mp4'', subtitle_url = None,
                                  thumbnail_url = ''https://video.example/v.jpg'',
                                  json_width = None, json_height = None, json_duration = 2,
                                  json_size = None\<rparr>)),
      tokenFetch = Rejected (Error ''fetch failed''),
      uploadNet = (\<lambda>u. Inr \<lparr>up_videoId = ''yt1'', up_status = ''uploaded'',
                               up_publishedAt = None\<rparr>)\<rparr>"

definition noTokens :: youtubeService where
  "noTokens = \<lparr>accessToken = None, refreshToken = None\<rparr>"

text \<open>A store holding one queued job, with id 1, created by the scheduler.\<close>

definition queuedStore :: store where
  "queuedStore = emptyStore\<lparr>jobs := [exampleJob 1 ''economy'' ''queued'' 0 0], nextId := 2\<rparr>"

text \<open>Two jobs, one created at time 0 and one at time 100, each with a summary.\<close>

definition twoJobStore :: store where
  "twoJobStore =
     emptyStore\<lparr>jobs := [exampleJob 1 ''economy'' ''completed'' 100 0,
                          exampleJob 2 ''health'' ''queued'' 0 100],
                summaries := [exampleSummary 3 1, exampleSummary 4 2], nextId := 5\<rparr>"


text \<open>Three jobs on the economy created within the last day before time 1000.\<close>

definition quotaStore :: store where
  "quotaStore =
     emptyStore\<lparr>jobs := [exampleJob 1 ''economy'' ''queued'' 0 10,
                          exampleJob 2 ''economy'' ''queued'' 0 20,
                          exampleJob 3 ''economy'' ''queued'' 0 30], nextId := 4\<rparr>"

text \<open>A store that already holds the article of \<open>exampleArticle\<close>, fetched for job 1.\<close>

definition seenStore :: store where
  "seenStore =
     queuedStore\<lparr>articles :=
       [\<lparr>jobId = 1, source = ''gnews'', url = g_url exampleArticle, title = g_title exampleArticle,
         content = description exampleArticle, contentHash = ''37146a8'', mediaUrl = None,
         publishedAt = Some 0, article_id = 2, article_createdAt = 0\<rparr>],
       nextId := 3\<rparr>"

text \<open>The news collaborator returns two different articles, whatever the topic.\<close>

definition twoArticleServices :: services where
  "twoArticleServices =
     exampleServices\<lparr>fetchArticles := (\<lambda>tp lang n. Inr [exampleArticle, otherArticle])\<rparr>"

text \<open>The news collaborator returns one article on the economy and nothing on other topics.\<close>

definition economyServices :: services where
  "economyServices =
     exampleServices\<lparr>fetchArticles :=
       (\<lambda>tp lang n. if tp = ''economy'' then Inr [exampleArticle] else Inr [])\<rparr>"

text \<open>The same, with the article twice in one answer.\<close>

definition twinServices :: services where
  "twinServices =
     exampleServices\<lparr>fetchArticles :=
       (\<lambda>tp lang n. if tp = ''economy'' then Inr [exampleArticle, exampleArticle] else Inr [])\<rparr>"

text \<open>The news collaborator finds nothing.\<close>

definition noNewsServices :: services where
  "noNewsServices = exampleServices\<lparr>fetchArticles := (\<lambda>tp lang n. Inr [])\<rparr>"

text \<open>The render service cannot be reached: the request itself fails.\<close>

definition renderDownServices :: services where
  "renderDownServices =
     exampleServices\<lparr>renderFetch := (\<lambda>r. Rejected (Error ''fetch failed''))\<rparr>"

text \<open>The render service answers with status 500.\<close>

definition renderErrorServices :: services where
  "renderErrorServices =
     exampleServices\<lparr>renderFetch :=
       (\<lambda>r. Response False ''500'' ''Internal Server Error'' ''out of memory'' (Inl NonError))\<rparr>"

section \<open>Properties\<close>

subsection \<open>Facts about the store operations\<close>

lemma find_map_update:
  assumes "\<And>j. job_id (f j) = job_id j"
  shows "find (\<lambda>j. job_id j = i') (map (\<lambda>j. if job_id j = i then f j else j) js) =
         (if i' = i then map_option f (find (\<lambda>j. job_id j = i) js)
          else find (\<lambda>j. job_id j = i') js)"
  by (induction js) (auto simp: assms)

lemma getJobById_updateJobStatus:
  "getJobById (updateJobStatus db now i st err prog) i' =
     (if i' = i then
        map_option (\<lambda>j. (case prog of None \<Rightarrow> (\<lambda>j. j) | Some p \<Rightarrow> (\<lambda>j. j\<lparr>progress := p\<rparr>))
                      ((case err of None \<Rightarrow> (\<lambda>j. j) | Some e \<Rightarrow> (\<lambda>j. j\<lparr>error := e\<rparr>))
                       (j\<lparr>status := st, updatedAt := now\<rparr>)))
          (getJobById db i)
      else getJobById db i')"
  unfolding getJobById_def updateJobStatus_def Let_def
  by (simp add: find_map_update split: option.splits)


lemma distinct_ids_eq:
  "distinct (map job_id js) \<Longrightarrow> j \<in> set js \<Longrightarrow> j' \<in> set js \<Longrightarrow> job_id j = job_id j' \<Longrightarrow> j = j'"
  by (meson distinct_map inj_on_def)



lemma cascade_gone: "i \<in> set ids \<Longrightarrow> filter (\<lambda>r. jobId r = i) (cascade ids rows) = []"
  by (induction rows) (auto simp: cascade_def)

lemma cascade_kept:
  "i \<notin> set ids \<Longrightarrow> filter (\<lambda>r. jobId r = i) (cascade ids rows) = filter (\<lambda>r. jobId r = i) rows"
  by (induction rows) (auto simp: cascade_def)

subsection \<open>Content hash\<close>

lemma hash_loops_agree: "generateContentHash_loop h s = generateHash_loop h s"
  by (induction s arbitrary: h) simp_all

text \<open>
  C10. The content hash is a function of the text alone: the same text gives the same hash,
  and the scheduler's \<open>generateContentHash\<close> and the executor's \<open>generateHash\<close> give
  the same value on every string.
\<close>

theorem content_hash_copies_agree:
  "generateContentHash s = generateHash s \<and>
   (s = t \<longrightarrow> generateHash s = generateHash t \<and> generateContentHash s = generateContentHash t)"
  by (simp add: generateContentHash_def generateHash_def hash_loops_agree)

theorem content_hash_copies_agree_witness:
  "generateContentHash (ascii ''abc'') = generateHash (ascii ''abc'') \<and>
   generateHash (ascii ''abc'') = ''17862'' \<and> generateContentHash (ascii ''abc'') = ''17862''"
  using content_hash_copies_agree [of "ascii ''abc''" "ascii ''abc''"]
  by (simp add: ascii_def generateHash_def toInt32_def shiftLeft32_def toString16.simps hexDigit_def)

subsection \<open>Retention sweep\<close>

text \<open>
  C9. \<open>deleteJobsOlderThan db cutoff\<close> keeps exactly the jobs created after the cutoff, in
  their order, and returns the number of jobs created at or before it. A deleted job leaves
  no derived row behind, and (job ids being unique) a kept job keeps all its derived rows.
\<close>

theorem deleteJobsOlderThan_exact:
  assumes "deleteJobsOlderThan db cutoff = (db', n)"
  shows "jobs db' = filter (\<lambda>j. cutoff < createdAt j) (jobs db) \<and>
         n = length (filter (\<lambda>j. createdAt j \<le> cutoff) (jobs db)) \<and>
         (\<forall>j \<in> set (jobs db). createdAt j \<le> cutoff \<longrightarrow>
            j \<notin> set (jobs db') \<and> derivedRows db' (job_id j) = ([], [], [], [], [])) \<and>
         (distinct (map job_id (jobs db)) \<longrightarrow>
            (\<forall>j \<in> set (jobs db). cutoff < createdAt j \<longrightarrow>
               j \<in> set (jobs db') \<and> derivedRows db' (job_id j) = derivedRows db (job_id j)))"
proof -
  let ?ids = "map job_id (filter (\<lambda>j. createdAt j \<le> cutoff) (jobs db))"
  have db': "db' = db\<lparr>jobs := filter (\<lambda>j. \<not> createdAt j \<le> cutoff) (jobs db),
             articles := cascade ?ids (articles db),
             summaries := cascade ?ids (summaries db),
             audioFiles := cascade ?ids (audioFiles db),
             videos := cascade ?ids (videos db),
             publications := cascade ?ids (publications db)\<rparr>"
    and n: "n = length ?ids"
    using assms by (auto simp: deleteJobsOlderThan_def deleteJobsWhere_def Let_def)
  have kept: "jobs db' = filter (\<lambda>j. cutoff < createdAt j) (jobs db)"
    by (simp add: db' not_le)
  have count: "n = length (filter (\<lambda>j. createdAt j \<le> cutoff) (jobs db))"
    by (simp add: n)
  have old: "j \<notin> set (jobs db') \<and> derivedRows db' (job_id j) = ([], [], [], [], [])"
    if j: "j \<in> set (jobs db)" "createdAt j \<le> cutoff" for j
  proof -
    from j have "job_id j \<in> set ?ids" by auto
    then show ?thesis
      using j by (simp add: db' derivedRows_def cascade_gone)
  qed
  have new: "j \<in> set (jobs db') \<and> derivedRows db' (job_id j) = derivedRows db (job_id j)"
    if d: "distinct (map job_id (jobs db))" and j: "j \<in> set (jobs db)" "cutoff < createdAt j" for j
  proof -
    have "job_id j \<notin> set ?ids"
    proof
      assume "job_id j \<in> set ?ids"
      then obtain j' where j': "j' \<in> set (jobs db)" "createdAt j' \<le> cutoff" "job_id j' = job_id j"
        by auto
      then have "j' = j" using d j distinct_ids_eq by metis
      then show False using j j' by simp
    qed
    then show ?thesis
      using j by (simp add: db' derivedRows_def cascade_kept)
  qed
  from kept count old new show ?thesis by blast
qed

theorem deleteJobsOlderThan_exact_witness:
  "deleteJobsOlderThan twoJobStore 50 =
     (twoJobStore\<lparr>jobs := [exampleJob 2 ''health'' ''queued'' 0 100],
                  summaries := [exampleSummary 4 2]\<rparr>, 1) \<and>
   distinct (map job_id (jobs twoJobStore)) \<and>
   derivedRows (fst (deleteJobsOlderThan twoJobStore 50)) 1 = ([], [], [], [], []) \<and>
   derivedRows (fst (deleteJobsOlderThan twoJobStore 50)) 2 = ([], [exampleSummary 4 2], [], [], [])"
  using deleteJobsOlderThan_exact
          [of twoJobStore 50 "fst (deleteJobsOlderThan twoJobStore 50)"
              "snd (deleteJobsOlderThan twoJobStore 50)"]
  by (simp add: deleteJobsOlderThan_def deleteJobsWhere_def cascade_def derivedRows_def
        twoJobStore_def emptyStore_def exampleJob_def exampleSummary_def Let_def)

subsection \<open>Content sync\<close>

lemma createJobs_jobs:
  "\<exists>new. jobs (fst (createJobs clk rnd tp k (db, st) as)) = jobs db @ new \<and>
         length new = length as \<and> (\<forall>j \<in> set new. topic j = tp)"
proof (induction as arbitrary: db k)
  case Nil
  then show ?case by simp
next
  case (Cons a as)
  let ?jd = "\<lparr>topic = tp, language = ''en'',
                      targetLength = getRandomTargetLength (rnd k), autoPublish = True,
                      status = ''queued'', progress = 0, steps = [], error = None\<rparr>"
  obtain db' j where c: "createJob db (clk (Suc k)) ?jd = (db', j)" by fastforce
  have j: "jobs db' = jobs db @ [j]" "topic j = tp"
    using c by (auto simp: createJob_def Let_def insertJob.defs)
  from Cons.IH [of "Suc k" db'] obtain new where
    new: "jobs (fst (createJobs clk rnd tp (Suc k) (db', st) as)) = jobs db' @ new"
      "length new = length as" "\<forall>j \<in> set new. topic j = tp" by blast
  show ?case
    apply (rule exI [of _ "j # new"])
    using c j new by simp
qed

lemma createJobs_started: "snd (createJobs clk rnd tp k (db, st) as) = st"
  by (induction as arbitrary: db k) (auto simp: Let_def split: prod.splits)

lemma length_getJobsByTopic:
  "length (getJobsByTopic db now tp d) =
   length (filter (\<lambda>j. now - d * 86400000 \<le> createdAt j) (filter (\<lambda>j. topic j = tp) (jobs db)))"
  by (simp add: getJobsByTopic_def Let_def conj_commute)

lemma syncTopic_quota:
  "3 \<le> length (getJobsByTopic db (clk 0) tp 1) \<Longrightarrow> syncTopic sv clk rnd (db, st) tp = (db, st)"
  by (simp add: syncTopic_def Let_def)

lemma syncTopic_started: "snd (syncTopic sv clk rnd (db, st) tp) = st"
  by (auto simp: syncTopic_def Let_def createJobs_started split: sum.splits)

lemma syncTopic_other_topic:
  assumes "t \<noteq> tp"
  shows "filter (\<lambda>j. topic j = t) (jobs (fst (syncTopic sv clk rnd (db, st) tp))) =
         filter (\<lambda>j. topic j = t) (jobs db)"
proof -
  have *: "filter (\<lambda>j. topic j = t) (jobs (fst (createJobs clk rnd tp k (db, st) as))) =
           filter (\<lambda>j. topic j = t) (jobs db)" for k as
    using createJobs_jobs [of clk rnd tp k db st as] assms by auto
  show ?thesis
    by (auto simp: syncTopic_def Let_def * split: sum.splits)
qed

lemma sync_fold_quota:
  assumes "3 \<le> length (getJobsByTopic db (clk tp 0) tp 1)"
  shows "filter (\<lambda>j. topic j = tp)
           (jobs (fst (foldl (\<lambda>w t. syncTopic sv (clk t) (rnd t) w t) (db, st) ts))) =
         filter (\<lambda>j. topic j = tp) (jobs db)"
  using assms
proof (induction ts arbitrary: db st)
  case Nil
  then show ?case by simp
next
  case (Cons t ts)
  obtain db1 st1 where s: "syncTopic sv (clk t) (rnd t) (db, st) t = (db1, st1)" by fastforce
  have same: "filter (\<lambda>j. topic j = tp) (jobs db1) = filter (\<lambda>j. topic j = tp) (jobs db)"
  proof (cases "t = tp")
    case True
    then show ?thesis using s Cons.prems syncTopic_quota [of db "clk tp" tp sv "rnd tp" st] by simp
  next
    case False
    then show ?thesis using s syncTopic_other_topic [of tp t sv "clk t" "rnd t" db st] by simp
  qed
  then have "3 \<le> length (getJobsByTopic db1 (clk tp 0) tp 1)"
    using Cons.prems by (simp add: length_getJobsByTopic)
  from Cons.IH [OF this] show ?case using s same by simp
qed

lemma sync_fold_started:
  "snd (foldl (\<lambda>w t. syncTopic sv (clk t) (rnd t) w t) (db, st) ts) = st"
proof (induction ts arbitrary: db st)
  case Nil
  then show ?case by simp
next
  case (Cons t ts)
  obtain db1 st1 where s: "syncTopic sv (clk t) (rnd t) (db, st) t = (db1, st1)" by fastforce
  then have "st1 = st" using syncTopic_started [of sv "clk t" "rnd t" db st t] by simp
  then show ?case using Cons.IH [of db1 st] s by simp
qed

lemma set_getExistingArticleHashes:
  "set (getExistingArticleHashes db hs) = set hs \<inter> contentHash ` set (articles db)"
  by (auto simp: getExistingArticleHashes_def)

text \<open>
  C8. If the topic already has at least three jobs created within the last day when its
  quota query runs, the sync pass leaves the topic's jobs as they are: it creates none.
\<close>

theorem quota_reached_no_new_jobs:
  assumes "3 \<le> length (getJobsByTopic db (clk tp 0) tp 1)"
  shows "filter (\<lambda>j. topic j = tp) (jobs (fst (performDailySync sv clk rnd db))) =
         filter (\<lambda>j. topic j = tp) (jobs db)"
  unfolding performDailySync_def using assms by (rule sync_fold_quota)

theorem quota_reached_no_new_jobs_witness:
  "3 \<le> length (getJobsByTopic quotaStore 1000 ''economy'' 1) \<and>
   filter (\<lambda>j. topic j = ''economy'')
     (jobs (fst (performDailySync exampleServices (\<lambda>t k. 1000) (\<lambda>t k. 0) quotaStore))) =
   jobs quotaStore"
  using quota_reached_no_new_jobs
          [where db = quotaStore and clk = "\<lambda>t k. 1000" and tp = "''economy''"
             and sv = exampleServices and rnd = "\<lambda>t k. 0"]
  by (simp add: getJobsByTopic_def quotaStore_def emptyStore_def exampleJob_def Let_def)

lemma createJobs_queued:
  "\<exists>new. jobs (fst (createJobs clk rnd tp k (db, st) as)) = jobs db @ new \<and>
         (\<forall>j \<in> set new. status j = ''queued'' \<and> progress j = 0)"
proof (induction as arbitrary: db k)
  case Nil
  then show ?case by simp
next
  case (Cons a as)
  let ?jd = "\<lparr>topic = tp, language = ''en'',
                      targetLength = getRandomTargetLength (rnd k), autoPublish = True,
                      status = ''queued'', progress = 0, steps = [], error = None\<rparr>"
  obtain db' j where c: "createJob db (clk (Suc k)) ?jd = (db', j)" by fastforce
  have j: "jobs db' = jobs db @ [j]" "status j = ''queued''" "progress j = 0"
    using c by (auto simp: createJob_def Let_def insertJob.defs)
  from Cons.IH [of "Suc k" db'] obtain new where
    new: "jobs (fst (createJobs clk rnd tp (Suc k) (db', st) as)) = jobs db' @ new"
      "\<forall>j \<in> set new. status j = ''queued'' \<and> progress j = 0" by blast
  show ?case
    apply (rule exI [of _ "j # new"])
    using c j new by simp
qed

lemma syncTopic_queued:
  "\<exists>new. jobs (fst (syncTopic sv clk rnd (db, st) tp)) = jobs db @ new \<and>
         (\<forall>j \<in> set new. status j = ''queued'' \<and> progress j = 0)"
  using createJobs_queued [of clk rnd tp 0 db st]
  by (auto simp: syncTopic_def Let_def split: sum.splits)

lemma sync_fold_queued:
  "\<exists>new. jobs (fst (foldl (\<lambda>w t. syncTopic sv (clk t) (rnd t) w t) (db, st) ts)) = jobs db @ new \<and>
         (\<forall>j \<in> set new. status j = ''queued'' \<and> progress j = 0)"
proof (induction ts arbitrary: db st)
  case Nil
  then show ?case by simp
next
  case (Cons t ts)
  obtain db1 st1 where s: "syncTopic sv (clk t) (rnd t) (db, st) t = (db1, st1)" by fastforce
  from syncTopic_queued [of sv "clk t" "rnd t" db st t] s obtain new1 where
    n1: "jobs db1 = jobs db @ new1" "\<forall>j \<in> set new1. status j = ''queued'' \<and> progress j = 0"
    by auto
  from Cons.IH [of db1 st1] obtain new2 where
    n2: "jobs (fst (foldl (\<lambda>w t. syncTopic sv (clk t) (rnd t) w t) (db1, st1) ts)) = jobs db1 @ new2"
      "\<forall>j \<in> set new2. status j = ''queued'' \<and> progress j = 0"
    by blast
  show ?case
    apply (rule exI [of _ "new1 @ new2"])
    using s n1 n2 by auto
qed

text \<open>
  Every job a sync pass adds to the store is left there queued, with progress 0.
\<close>

lemma sync_pass_leaves_jobs_queued:
  "\<exists>new. jobs (fst (performDailySync sv clk rnd db)) = jobs db @ new \<and>
         (\<forall>j \<in> set new. status j = ''queued'' \<and> progress j = 0)"
  unfolding performDailySync_def by (rule sync_fold_queued)

text \<open>
  C3. The sync pass starts the executor on none of the jobs it creates, whatever the store
  and the collaborators do, whereas the create-job endpoint starts it on the job it has
  just stored (whose id is the next one the store hands out).
\<close>

theorem scheduler_never_starts_executor:
  "snd (performDailySync sv clk rnd db) = [] \<and>
   snd (fst (createJobRoute db now (Some jobData))) = [nextId db]"
  by (simp add: performDailySync_def sync_fold_started createJobRoute_def createJob_def Let_def
        insertJob.defs job.defs)

text \<open>
  At the example input: on the empty store, with one article on the economy, the pass
  stores one queued job and starts nothing.
\<close>

lemma scheduler_job_stays_queued:
  "map (\<lambda>j. (job_id j, topic j, status j, progress j))
     (jobs (fst (performDailySync economyServices (\<lambda>t k. 1000) (\<lambda>t k. 0) emptyStore))) =
     [(0, ''economy'', ''queued'', 0)] \<and>
   snd (performDailySync economyServices (\<lambda>t k. 1000) (\<lambda>t k. 0) emptyStore) = []"
  by (simp add: performDailySync_def defaultTopics_def syncTopic_def getJobsByTopic_def
        getExistingArticleHashes_def createJob_def economyServices_def exampleServices_def
        emptyStore_def Let_def insertJob.defs job.defs)

text \<open>
  What the filter of the sync does: for a topic whose fetch succeeds, no job is created
  when the quota is reached, and otherwise as many jobs as there are fetched candidates
  whose content hash is not among the store's article hashes, up to two. A candidate whose
  hash is already stored is dropped before job creation.
\<close>

lemma sync_drops_known_hashes:
  assumes "fetchArticles sv tp ''en'' 5 = Inr fetched"
  shows "length (jobs (fst (syncTopic sv clk rnd (db, st) tp))) =
         length (jobs db) +
           (if 3 \<le> length (getJobsByTopic db (clk 0) tp 1) then 0
            else min 2 (length (filter (\<lambda>a. generateContentHash (description a)
                                            \<notin> contentHash ` set (articles db)) fetched)))"
proof -
  let ?known = "getExistingArticleHashes db (map (\<lambda>a. generateContentHash (description a)) fetched)"
  let ?new = "filter (\<lambda>a. generateContentHash (description a) \<notin> set ?known) fetched"
  let ?fresh = "filter (\<lambda>a. generateContentHash (description a) \<notin> contentHash ` set (articles db)) fetched"
  have eq: "?new = ?fresh"
    by (rule filter_cong) (auto simp: set_getExistingArticleHashes)
  have len: "length (jobs (fst (createJobs clk rnd tp 0 (db, st) as))) = length (jobs db) + length as" for as
    using createJobs_jobs [of clk rnd tp 0 db st as] by auto
  have "syncTopic sv clk rnd (db, st) tp =
          (if 3 \<le> length (getJobsByTopic db (clk 0) tp 1) then (db, st)
           else if fetched = [] then (db, st)
           else if ?new = [] then (db, st)
           else createJobs clk rnd tp 0 (db, st) (take 2 ?new))"
    using assms by (simp add: syncTopic_def Let_def)
  then have "syncTopic sv clk rnd (db, st) tp =
          (if 3 \<le> length (getJobsByTopic db (clk 0) tp 1) then (db, st)
           else if fetched = [] then (db, st)
           else if ?fresh = [] then (db, st)
           else createJobs clk rnd tp 0 (db, st) (take 2 ?fresh))"
    by (simp only: eq)
  then show ?thesis
    by (simp add: len min_def)
qed

lemma example_hashes:
  "generateContentHash (description exampleArticle) = ''37146a8''"
  "generateContentHash (description otherArticle) = ''4bc98ef7''"
  by (simp_all add: exampleArticle_def otherArticle_def ascii_def generateContentHash_def
        toInt32_def shiftLeft32_def toString16.simps hexDigit_def)

lemma sync_drops_known_hashes_example:
  "fetchArticles twoArticleServices ''economy'' ''en'' 5 = Inr [exampleArticle, otherArticle] \<and>
   length (jobs (fst (syncTopic twoArticleServices (\<lambda>k. 1000) (\<lambda>k. 0) (seenStore, []) ''economy''))) =
   length (jobs seenStore) + 1"
  using sync_drops_known_hashes
          [where sv = twoArticleServices and tp = "''economy''"
             and fetched = "[exampleArticle, otherArticle]" and clk = "\<lambda>k. 1000"
             and rnd = "\<lambda>k. 0" and db = seenStore and st = "[]"]
  by (simp add: twoArticleServices_def exampleServices_def example_hashes getJobsByTopic_def
        seenStore_def queuedStore_def emptyStore_def exampleJob_def Let_def)

text \<open>
  C4. Byte-identical candidates give more than one job. The same article fetched in two
  sync passes gives two jobs: the job of the first pass is never executed, so the article's
  hash is not in the store when the second pass filters. The same article twice in one
  answer gives two jobs as well: the filter compares the candidates with the stored hashes
  only, not with each other.
\<close>

theorem identical_articles_give_two_jobs:
  "map topic (jobs (fst (performDailySync economyServices (\<lambda>t k. 2000) (\<lambda>t k. 0)
      (fst (performDailySync economyServices (\<lambda>t k. 1000) (\<lambda>t k. 0) emptyStore))))) =
     [''economy'', ''economy''] \<and>
   map topic (jobs (fst (performDailySync twinServices (\<lambda>t k. 1000) (\<lambda>t k. 0) emptyStore))) =
     [''economy'', ''economy'']"
  by (simp add: performDailySync_def defaultTopics_def syncTopic_def getJobsByTopic_def
        getExistingArticleHashes_def createJob_def economyServices_def twinServices_def
        exampleServices_def emptyStore_def Let_def insertJob.defs job.defs)

text \<open>
  Were the executor run on the job of the first pass (it fails at the publish step, but has
  stored the article by then), the second pass would find the hash and create no job.
\<close>

lemma first_pass_store:
  "fst (performDailySync economyServices (\<lambda>t k. 1000) (\<lambda>t k. 0) emptyStore) =
     emptyStore\<lparr>jobs := [\<lparr>topic = ''economy'', language = ''en'', targetLength = 60,
                           autoPublish = True, status = ''queued'', progress = 0, steps = [],
                           error = None, job_id = 0, createdAt = 1000, updatedAt = 1000\<rparr>],
                nextId := 1\<rparr>"
  by (simp add: performDailySync_def defaultTopics_def syncTopic_def getJobsByTopic_def
        getExistingArticleHashes_def createJob_def economyServices_def
        exampleServices_def emptyStore_def Let_def insertJob.defs job.defs
        getRandomTargetLength_def)

lemma example_generateHash:
  "generateHash (description exampleArticle) = ''37146a8''"
  using example_hashes(1) by (simp add: generateContentHash_def generateHash_def hash_loops_agree)

lemma executed_job_blocks_second_job:
  "map topic (jobs (fst (performDailySync economyServices (\<lambda>t k. 2000) (\<lambda>t k. 0)
      (last (fst (processJob economyServices (\<lambda>k. 1500) noTokens
         (fst (performDailySync economyServices (\<lambda>t k. 1000) (\<lambda>t k. 0) emptyStore)) 0)))))) =
     [''economy'']"
  unfolding first_pass_store
  by (simp add: processJob_def processJob_try_def publishVideo_def publishAttempt_def
        refreshAccessToken_def falsy_def noTokens_def Let_def split_beta renderVideo_def
        orDefault_def errorMessage_def economyServices_def exampleServices_def emptyStore_def
        getJobById_def updateJobStatus_def createArticle_def createSummary_def createAudio_def
        createVideo_def createPublication_def example_generateHash example_hashes
        performDailySync_def defaultTopics_def syncTopic_def getJobsByTopic_def
        getExistingArticleHashes_def insertArticle.defs article.defs)

subsection \<open>Stuck-job sweep\<close>







subsection \<open>The executor\<close>

lemma tables_updateJobStatus:
  "articles (updateJobStatus db now i st err prog) = articles db"
  "summaries (updateJobStatus db now i st err prog) = summaries db"
  "audioFiles (updateJobStatus db now i st err prog) = audioFiles db"
  "videos (updateJobStatus db now i st err prog) = videos db"
  "publications (updateJobStatus db now i st err prog) = publications db"
  "nextId (updateJobStatus db now i st err prog) = nextId db"
  by (simp_all add: updateJobStatus_def Let_def)

lemma jobState_updateJobStatus:
  "jobState (updateJobStatus db now i st (Some e) (Some p)) i =
     map_option (\<lambda>s. (st, p, e)) (jobState db i)"
  "jobState (updateJobStatus db now i st (Some e) None) i =
     map_option (\<lambda>s. (st, fst (snd s), e)) (jobState db i)"
  by (simp_all add: jobState_def getJobById_updateJobStatus option.map_comp comp_def)

lemma getJobById_create:
  "getJobById (fst (createArticle db now a)) i = getJobById db i"
  "getJobById (fst (createSummary db now s)) i = getJobById db i"
  "getJobById (fst (createAudio db now au)) i = getJobById db i"
  "getJobById (fst (createVideo db now v)) i = getJobById db i"
  "getJobById (fst (createPublication db now p)) i = getJobById db i"
  by (simp_all add: getJobById_def createArticle_def createSummary_def createAudio_def
        createVideo_def createPublication_def Let_def)

lemma jobState_create:
  "jobState (fst (createArticle db now a)) i = jobState db i"
  "jobState (fst (createSummary db now s)) i = jobState db i"
  "jobState (fst (createAudio db now au)) i = jobState db i"
  "jobState (fst (createVideo db now v)) i = jobState db i"
  "jobState (fst (createPublication db now p)) i = jobState db i"
  by (simp_all add: jobState_def getJobById_create)

lemma publishVideo_store:
  "\<exists>p. fst (publishVideo sv yt db now jb vid) = fst (createPublication db now p)"
  by (auto simp: publishVideo_def Let_def split_beta split: sum.splits)

lemma jobState_publishVideo:
  "jobState (fst (publishVideo sv yt db now jb vid)) i = jobState db i"
  using publishVideo_store [of sv yt db now jb vid] by (auto simp: jobState_create)

lemma job_after_start:
  assumes "getJobById db jid = Some j"
  shows "getJobById (updateJobStatus db now jid ''running'' (Some None) (Some 10)) jid =
         Some (j\<lparr>status := ''running'', updatedAt := now, error := None, progress := 10\<rparr>)"
  using assms by (simp add: getJobById_updateJobStatus)

text \<open>
  C6. The job being in the store, an empty answer of the article fetch makes the executor
  write twice: running with progress 10, then failed with the error \<open>No articles found\<close>
  and the progress still 10. No table of derived rows changes.
\<close>

theorem no_articles_fails_at_progress_10:
  assumes "getJobById db jid = Some j"
      and "fetchArticles sv (topic j) (language j) 10 = Inr []"
  shows "map (\<lambda>d. jobState d jid) (fst (processJob sv clk yt db jid)) =
           [Some (''running'', 10, None), Some (''failed'', 10, Some ''No articles found'')] \<and>
         (\<forall>d \<in> set (fst (processJob sv clk yt db jid)).
            articles d = articles db \<and> summaries d = summaries db \<and>
            audioFiles d = audioFiles db \<and> videos d = videos db \<and>
            publications d = publications db)"
proof -
  have s0: "jobState db jid = Some (status j, progress j, error j)"
    using assms(1) by (simp add: jobState_def)
  have tr: "fst (processJob sv clk yt db jid) =
          [updateJobStatus db (clk 0) jid ''running'' (Some None) (Some 10),
           updateJobStatus (updateJobStatus db (clk 0) jid ''running'' (Some None) (Some 10))
             (clk 10) jid ''failed'' (Some (Some ''No articles found'')) None]"
    using assms
    by (simp add: processJob_def processJob_try_def Let_def job_after_start errorMessage_def)
  show ?thesis
    unfolding tr by (simp add: jobState_updateJobStatus s0 tables_updateJobStatus)
qed

theorem no_articles_fails_at_progress_10_witness:
  "getJobById queuedStore 1 = Some (exampleJob 1 ''economy'' ''queued'' 0 0) \<and>
   fetchArticles noNewsServices ''economy'' ''en'' 10 = Inr [] \<and>
   map (\<lambda>d. jobState d 1) (fst (processJob noNewsServices (\<lambda>k. int k) noTokens queuedStore 1)) =
     [Some (''running'', 10, None), Some (''failed'', 10, Some ''No articles found'')]"
  using no_articles_fails_at_progress_10
          [where db = queuedStore and jid = 1 and j = "exampleJob 1 ''economy'' ''queued'' 0 0"
             and sv = noNewsServices and clk = "\<lambda>k. int k" and yt = noTokens]
  by (simp add: getJobById_def queuedStore_def emptyStore_def exampleJob_def noNewsServices_def
        exampleServices_def)

lemma tables_create:
  "articles (fst (createArticle db now a)) = articles db @ [snd (createArticle db now a)]"
  "summaries (fst (createArticle db now a)) = summaries db"
  "audioFiles (fst (createArticle db now a)) = audioFiles db"
  "videos (fst (createArticle db now a)) = videos db"
  "publications (fst (createArticle db now a)) = publications db"
  "articles (fst (createSummary db now s)) = articles db"
  "summaries (fst (createSummary db now s)) = summaries db @ [snd (createSummary db now s)]"
  "audioFiles (fst (createSummary db now s)) = audioFiles db"
  "videos (fst (createSummary db now s)) = videos db"
  "publications (fst (createSummary db now s)) = publications db"
  "articles (fst (createAudio db now au)) = articles db"
  "summaries (fst (createAudio db now au)) = summaries db"
  "audioFiles (fst (createAudio db now au)) = audioFiles db @ [snd (createAudio db now au)]"
  "videos (fst (createAudio db now au)) = videos db"
  "publications (fst (createAudio db now au)) = publications db"
  "articles (fst (createVideo db now v)) = articles db"
  "summaries (fst (createVideo db now v)) = summaries db"
  "audioFiles (fst (createVideo db now v)) = audioFiles db"
  "videos (fst (createVideo db now v)) = videos db @ [snd (createVideo db now v)]"
  "publications (fst (createVideo db now v)) = publications db"
  by (simp_all add: createArticle_def createSummary_def createAudio_def createVideo_def Let_def)

lemma fields_create:
  "jobId (snd (createArticle db now a)) = jobId a"
  "title (snd (createArticle db now a)) = title a"
  "content (snd (createArticle db now a)) = content a"
  "mediaUrl (snd (createArticle db now a)) = mediaUrl a"
  "contentHash (snd (createArticle db now a)) = contentHash a"
  "jobId (snd (createSummary db now s)) = jobId s"
  "summaryText (snd (createSummary db now s)) = summaryText s"
  "jobId (snd (createAudio db now au)) = jobId au"
  "audioUrl (snd (createAudio db now au)) = audioUrl au"
  "audioDuration (snd (createAudio db now au)) = audioDuration au"
  "jobId (snd (createVideo db now v)) = jobId v"
  "urlMp4 (snd (createVideo db now v)) = urlMp4 v"
  by (simp_all add: createArticle_def createSummary_def createAudio_def createVideo_def Let_def
        insertArticle.defs insertSummary.defs insertAudioFile.defs insertVideo.defs)

text \<open>
  C7 (as amended). The job being in the store and fetch, summary and speech having succeeded,
  a failing render call ends the run with the job failed, its progress still 75 and its
  error the message of the thrown error (\<open>Unknown error\<close> for a thrown value that is
  no error object); that message starts with \<open>Video service error:\<close> when the render
  service answered with a status that is not ok. The summary and the audio row written
  before stay in the store, and no video row is written.
\<close>

theorem render_failure_keeps_progress_and_rows:
  assumes "getJobById db jid = Some j"
      and "fetchArticles sv (topic j) (language j) 10 = Inr (first # others)"
      and "generateSummary sv (g_title first) (description first) (targetLength j) = Inr sr"
      and "generateTTS sv (sr_text sr) (language j) = Inr ar"
      and "req = \<lparr>req_summary = sr_text sr, req_audioUrl = tts_url ar,
                   req_duration = tts_duration ar,
                   req_images = (case g_image first of None \<Rightarrow> []
                                 | Some m \<Rightarrow> if m = [] then [] else [m]),
                   req_title = g_title first\<rparr>"
      and "renderVideo (renderFetch sv) req = Inl e"
  shows "map (\<lambda>d. jobState d jid) (fst (processJob sv clk yt db jid)) =
           [Some (''running'', 10, None), Some (''running'', 10, None),
            Some (''running'', 25, None), Some (''running'', 25, None),
            Some (''running'', 50, None), Some (''running'', 50, None),
            Some (''running'', 75, None), Some (''failed'', 75, Some (errorMessage e))] \<and>
         (\<exists>s. summaries (last (fst (processJob sv clk yt db jid))) = summaries db @ [s] \<and>
              jobId s = jid \<and> summaryText s = sr_text sr) \<and>
         (\<exists>a. audioFiles (last (fst (processJob sv clk yt db jid))) = audioFiles db @ [a] \<and>
              jobId a = jid \<and> audioUrl a = tts_url ar) \<and>
         videos (last (fst (processJob sv clk yt db jid))) = videos db \<and>
         (\<forall>st statusText errorText body.
            renderFetch sv req = Response False st statusText errorText body \<longrightarrow>
            errorMessage e =
              ''Video service error: '' @ st @ '' '' @ statusText @ '' - '' @ errorText)"
proof -
  have s0: "jobState db jid = Some (status j, progress j, error j)"
    using assms(1) by (simp add: jobState_def)
  have named: "errorMessage e =
                 ''Video service error: '' @ st @ '' '' @ statusText @ '' - '' @ errorText"
    if "renderFetch sv req = Response False st statusText errorText body"
    for st statusText errorText body
    using that assms(6) by (auto simp: renderVideo_def errorMessage_def)
  have run: "map (\<lambda>d. jobState d jid) (fst (processJob sv clk yt db jid)) =
           [Some (''running'', 10, None), Some (''running'', 10, None),
            Some (''running'', 25, None), Some (''running'', 25, None),
            Some (''running'', 50, None), Some (''running'', 50, None),
            Some (''running'', 75, None), Some (''failed'', 75, Some (errorMessage e))] \<and>
         (\<exists>s. summaries (last (fst (processJob sv clk yt db jid))) = summaries db @ [s] \<and>
              jobId s = jid \<and> summaryText s = sr_text sr) \<and>
         (\<exists>a. audioFiles (last (fst (processJob sv clk yt db jid))) = audioFiles db @ [a] \<and>
              jobId a = jid \<and> audioUrl a = tts_url ar) \<and>
         videos (last (fst (processJob sv clk yt db jid))) = videos db"
    using assms(2-4) assms(6) [unfolded assms(5)]
    by (simp add: processJob_def processJob_try_def Let_def split_beta
          job_after_start [OF assms(1)] jobState_updateJobStatus jobState_create s0
          tables_updateJobStatus tables_create fields_create)
  from run named show ?thesis by blast
qed

theorem render_failure_keeps_progress_and_rows_witness:
  "getJobById queuedStore 1 = Some (exampleJob 1 ''economy'' ''queued'' 0 0) \<and>
   renderFetch renderErrorServices
     \<lparr>req_summary = ''Rates stay unchanged.'', req_audioUrl = ''https://tts.example/a.wav'',
      req_duration = 2, req_images = [], req_title = ''Rates on hold''\<rparr> =
     Response False ''500'' ''Internal Server Error'' ''out of memory'' (Inl NonError) \<and>
   map (\<lambda>d. jobState d 1)
     (fst (processJob renderErrorServices (\<lambda>k. int k) noTokens queuedStore 1)) =
     [Some (''running'', 10, None), Some (''running'', 10, None),
      Some (''running'', 25, None), Some (''running'', 25, None),
      Some (''running'', 50, None), Some (''running'', 50, None),
      Some (''running'', 75, None),
      Some (''failed'', 75,
            Some ''Video service error: 500 Internal Server Error - out of memory'')] \<and>
   map jobId (summaries (last (fst (processJob renderErrorServices (\<lambda>k. int k) noTokens
                                      queuedStore 1)))) = [1] \<and>
   map jobId (audioFiles (last (fst (processJob renderErrorServices (\<lambda>k. int k) noTokens
                                       queuedStore 1)))) = [1] \<and>
   videos (last (fst (processJob renderErrorServices (\<lambda>k. int k) noTokens queuedStore 1))) = []"
  using render_failure_keeps_progress_and_rows
          [where db = queuedStore and jid = 1 and j = "exampleJob 1 ''economy'' ''queued'' 0 0"
             and sv = renderErrorServices and first = exampleArticle and others = "[]"
             and sr = "\<lparr>sr_text = ''Rates stay unchanged.'', sr_wordCount = 3,
                          sr_qualityFlags = None\<rparr>"
             and ar = "\<lparr>tts_url = ''https://tts.example/a.wav'', tts_duration = 2,
                          tts_sampleRate = 22050, tts_format = ''wav'', tts_size = 1000\<rparr>"
             and req = "\<lparr>req_summary = ''Rates stay unchanged.'',
                           req_audioUrl = ''https://tts.example/a.wav'',
                           req_duration = 2, req_images = [], req_title = ''Rates on hold''\<rparr>"
             and e = "Error ''Video service error: 500 Internal Server Error - out of memory''"
             and clk = "\<lambda>k. int k" and yt = noTokens]
  by (auto simp: getJobById_def queuedStore_def emptyStore_def exampleJob_def
        renderErrorServices_def exampleServices_def exampleArticle_def renderVideo_def
        errorMessage_def)

text \<open>
  The claim as stated fails where it says that the error names the render collaborator:
  when the render service cannot be reached, the job's error is the message of the failed
  request, which names no collaborator.
\<close>

lemma queuedStore_job:
  "getJobById queuedStore (Suc 0) = Some (exampleJob 1 ''economy'' ''queued'' 0 0)"
  "jobState queuedStore (Suc 0) = Some (''queued'', 0, None)"
  by (simp_all add: jobState_def getJobById_def queuedStore_def emptyStore_def exampleJob_def)

theorem render_unreachable_error_counterexample:
  "jobState (last (fst (processJob renderDownServices (\<lambda>k. int k) noTokens queuedStore 1))) 1 =
     Some (''failed'', 75, Some ''fetch failed'') \<and>
   \<not> sublist ''ideo'' ''fetch failed'' \<and> \<not> sublist ''ender'' ''fetch failed''"
  by (simp add: processJob_def processJob_try_def Let_def split_beta renderVideo_def
        errorMessage_def jobState_updateJobStatus jobState_create
        renderDownServices_def exampleServices_def exampleJob_def queuedStore_job
        getJobById_updateJobStatus getJobById_create
        sublist_Cons_right prefix_code)

lemma tables_createPublication:
  "articles (fst (createPublication db now p)) = articles db"
  "summaries (fst (createPublication db now p)) = summaries db"
  "audioFiles (fst (createPublication db now p)) = audioFiles db"
  "videos (fst (createPublication db now p)) = videos db"
  "publications (fst (createPublication db now p)) =
     publications db @ [snd (createPublication db now p)]"
  "jobId (snd (createPublication db now p)) = jobId p"
  "pubStatus (snd (createPublication db now p)) = pubStatus p"
  by (simp_all add: createPublication_def Let_def insertPublication.defs)

text \<open>
  C1. The job being in the store with \<open>autoPublish\<close> set and the four stages having
  succeeded, a failing publish attempt makes the executor write to the completed job once
  more: the job goes from completed to failed, its progress still 100 and its error the
  message of the publish error. The failed publication is recorded as well.
\<close>

theorem publish_failure_reverts_completed_job:
  assumes "getJobById db jid = Some j" and "autoPublish j"
      and "fetchArticles sv (topic j) (language j) 10 = Inr (first # others)"
      and "generateSummary sv (g_title first) (description first) (targetLength j) = Inr sr"
      and "generateTTS sv (sr_text sr) (language j) = Inr ar"
      and "req = \<lparr>req_summary = sr_text sr, req_audioUrl = tts_url ar,
                   req_duration = tts_duration ar,
                   req_images = (case g_image first of None \<Rightarrow> []
                                 | Some m \<Rightarrow> if m = [] then [] else [m]),
                   req_title = g_title first\<rparr>"
      and "renderVideo (renderFetch sv) req = Inr vr"
      and "snd (publishAttempt sv yt (vr_urlMp4 vr)) = Inl e"
  shows "map (\<lambda>d. jobState d jid) (fst (processJob sv clk yt db jid)) =
           [Some (''running'', 10, None), Some (''running'', 10, None),
            Some (''running'', 25, None), Some (''running'', 25, None),
            Some (''running'', 50, None), Some (''running'', 50, None),
            Some (''running'', 75, None), Some (''running'', 75, None),
            Some (''completed'', 100, None), Some (''completed'', 100, None),
            Some (''failed'', 100, Some (errorMessage e))] \<and>
         (\<exists>p. publications (last (fst (processJob sv clk yt db jid))) = publications db @ [p] \<and>
              jobId p = jid \<and> pubStatus p = ''failed'')"
proof -
  have s0: "jobState db jid = Some (status j, progress j, error j)"
    using assms(1) by (simp add: jobState_def)
  have jid: "job_id j = jid"
    using assms(1) by (auto simp: getJobById_def find_Some_iff)
  show ?thesis
    using assms(2-5) assms(7) [unfolded assms(6)] assms(8) jid
    by (simp add: processJob_def processJob_try_def publishVideo_def Let_def split_beta
          job_after_start [OF assms(1)] jobState_updateJobStatus jobState_create s0
          tables_updateJobStatus tables_create tables_createPublication fields_create)
qed

theorem publish_failure_reverts_completed_job_witness:
  "getJobById queuedStore 1 = Some (exampleJob 1 ''economy'' ''queued'' 0 0) \<and>
   autoPublish (exampleJob 1 ''economy'' ''queued'' 0 0) \<and>
   snd (publishAttempt exampleServices noTokens ''https://video.example/v.mp4'') =
     Inl (Error ''No refresh token available. Re-authentication required.'') \<and>
   map (\<lambda>d. jobState d 1) (fst (processJob exampleServices (\<lambda>k. int k) noTokens queuedStore 1)) =
     [Some (''running'', 10, None), Some (''running'', 10, None),
      Some (''running'', 25, None), Some (''running'', 25, None),
      Some (''running'', 50, None), Some (''running'', 50, None),
      Some (''running'', 75, None), Some (''running'', 75, None),
      Some (''completed'', 100, None), Some (''completed'', 100, None),
      Some (''failed'', 100, Some ''No refresh token available. Re-authentication required.'')]"
  using publish_failure_reverts_completed_job
          [where db = queuedStore and jid = 1 and j = "exampleJob 1 ''economy'' ''queued'' 0 0"
             and sv = exampleServices and first = exampleArticle and others = "[]"
             and sr = "\<lparr>sr_text = ''Rates stay unchanged.'', sr_wordCount = 3,
                          sr_qualityFlags = None\<rparr>"
             and ar = "\<lparr>tts_url = ''https://tts.example/a.wav'', tts_duration = 2,
                          tts_sampleRate = 22050, tts_format = ''wav'', tts_size = 1000\<rparr>"
             and req = "\<lparr>req_summary = ''Rates stay unchanged.'',
                           req_audioUrl = ''https://tts.example/a.wav'',
                           req_duration = 2, req_images = [], req_title = ''Rates on hold''\<rparr>"
             and vr = "\<lparr>vr_urlMp4 = ''https://video.example/v.mp4'', vr_urlSrt = None,
                          vr_urlThumb = ''https://video.example/v.jpg'', vr_width = 1920,
                          vr_height = 1080, vr_duration = 2, vr_size = 0\<rparr>"
             and yt = noTokens
             and e = "Error ''No refresh token available. Re-authentication required.''"
             and clk = "\<lambda>k. int k"]
  by (auto simp: getJobById_def queuedStore_def emptyStore_def exampleJob_def
        exampleServices_def exampleArticle_def renderVideo_def orDefault_def
        publishAttempt_def refreshAccessToken_def falsy_def noTokens_def errorMessage_def)

text \<open>
  C2. For a queued job with \<open>autoPublish\<close> set, the four stages succeeding and no
  YouTube token set, the last write of the run leaves the job failed, with an error, and
  its progress 100: the progress is 100 although the job is not completed.
\<close>

theorem failed_job_with_progress_100:
  "jobState (last (fst (processJob exampleServices (\<lambda>k. int k) noTokens queuedStore 1))) 1 =
     Some (''failed'', 100, Some ''No refresh token available. Re-authentication required.'')"
  by (simp add: processJob_def processJob_try_def publishVideo_def publishAttempt_def
        refreshAccessToken_def falsy_def noTokens_def Let_def split_beta renderVideo_def
        orDefault_def errorMessage_def jobState_updateJobStatus jobState_create
        exampleServices_def exampleJob_def queuedStore_job
        getJobById_updateJobStatus getJobById_create)

lemma publishVideo_result:
  "snd (snd (publishVideo sv yt db now jb vid)) = Inl e \<longleftrightarrow>
   snd (publishAttempt sv yt (urlMp4 vid)) = Inl e"
  by (auto simp: publishVideo_def Let_def split_beta split: sum.splits)

text \<open>
  Unless a publish attempt fails, every write of a run leaves the job row within the
  invariant, and the progress never decreases along the run.
\<close>

lemma executor_keeps_invariant_without_publish_failure:
  assumes "getJobById db jid = Some j"
      and "autoPublish j \<longrightarrow> (\<forall>u e. snd (publishAttempt sv yt u) \<noteq> Inl e)"
  shows "(\<forall>d \<in> set (fst (processJob sv clk yt db jid)).
            \<exists>v. jobState d jid = Some v \<and> jobInvariant v) \<and>
         sorted (map (\<lambda>d. case jobState d jid of Some (st, p, e) \<Rightarrow> p | None \<Rightarrow> 0)
                   (fst (processJob sv clk yt db jid)))"
proof -
  have s0: "jobState db jid = Some (status j, progress j, error j)"
    using assms(1) by (simp add: jobState_def)
  show ?thesis
    using assms(2)
    by (auto simp: processJob_def processJob_try_def Let_def split_beta
          job_after_start [OF assms(1)] jobState_updateJobStatus jobState_create
          jobState_publishVideo s0 jobInvariant_def publishVideo_result
          split: sum.splits list.splits)
qed

end
